theory Spec2Isabelle
  imports Main "HOL-Library.Word"
begin

section \<open>The terminal relay of the dashboard backend (handler/terminal.go)\<close>

text \<open>
  The file holds two goroutine bodies, \<open>handleTerminalSession\<close> (one per SockJS connection)
  and \<open>WaitForTerminal\<close> (one per session), that meet in the global map
  \<open>terminalSessions\<close> and on the channel \<open>bound\<close> of a session, and the methods of
  \<open>TerminalSession\<close> that the remotecommand library calls while a process streams.

  The methods are embedded as functions on an explicit \<open>world\<close>. The goroutine bodies are
  embedded as step functions: a goroutine state names the source line the goroutine stands
  at, a step holds at most one access to what the goroutines share (the map, a channel),
  and a schedule (a list of goroutine names) interleaves the steps.
\<close>

subsection \<open>Go values\<close>

text \<open>An \<open>error\<close> value; \<open>Error_text\<close> is what \<open>err.Error()\<close> returns.\<close>

datatype error = Error string

fun Error_text :: "error \<Rightarrow> string" where
  "Error_text (Error s) = s"

text \<open>
  What a call does: it returns, it blocks (on a channel or on the transport, waiting for
  another party), or it panics.
\<close>

datatype 'a outcome = Returns 'a | Blocks | Panics string

text \<open>Go's builtin \<open>copy(dst, src)\<close>: the destination after the call and the count.\<close>

definition copy :: "string \<Rightarrow> string \<Rightarrow> string \<times> nat" where
  "copy dst src =
     (let n = min (length dst) (length src) in (take n src @ drop n dst, n))"

subsection \<open>Channels\<close>

text \<open>
  Modelled from the spec: the two channels of a session are made where the session is
  registered, which is not in this file, so their capacity is not known here; the spec has
  \<open>bound\<close> as a signal delivered once and the resize queue as unbounded. A channel is the
  queue of the values in flight (sent, not yet received) and the closed flag: a send on an
  open channel is shown as completed with its value in flight, whether the value sits in a
  buffer or the sender waits for the receiver to take it. A send on a closed channel and
  the close of a closed channel panic; a receive takes the oldest value, returns the zero
  value on a closed and empty channel, and blocks on an open and empty one. A channel
  variable is a reference (\<open>None\<close> is the nil channel, on which send and receive block for
  ever and close panics).
\<close>

record 'a chan =
  chan_queue :: "'a list"
  chan_closed :: bool

definition chan_send :: "'a chan \<Rightarrow> 'a \<Rightarrow> 'a chan outcome" where
  "chan_send c v =
     (if chan_closed c then Panics ''send on closed channel''
      else Returns (c\<lparr>chan_queue := chan_queue c @ [v]\<rparr>))"

definition chan_recv :: "'a chan \<Rightarrow> 'a \<Rightarrow> ('a \<times> 'a chan) outcome" where
  "chan_recv c zero =
     (case chan_queue c of
        v # q \<Rightarrow> Returns (v, c\<lparr>chan_queue := q\<rparr>)
      | [] \<Rightarrow> if chan_closed c then Returns (zero, c) else Blocks)"

definition chan_close :: "'a chan \<Rightarrow> 'a chan outcome" where
  "chan_close c =
     (if chan_closed c then Panics ''close of closed channel''
      else Returns (c\<lparr>chan_closed := True\<rparr>))"

subsection \<open>The data of terminal.go\<close>

text \<open>\<open>TerminalMessage\<close> (lines 59-62).\<close>

record TerminalMessage =
  Op :: string
  Data :: string
  SessionID :: string
  Rows :: "16 word"
  Cols :: "16 word"

text \<open>
  Modelled from the spec: \<open>remotecommand.TerminalSize\<close> is declared in the client library,
  not in this file. A size is a width and a height, both \<open>uint16\<close>, \<open>Width\<close> first;
  line 90 fills it by position.
\<close>

record TerminalSize =
  Width :: "16 word"
  Height :: "16 word"

definition zero_TerminalSize :: TerminalSize where
  "zero_TerminalSize = \<lparr>Width = 0, Height = 0\<rparr>"

text \<open>
  \<open>TerminalSession\<close> (lines 43-48). The three last fields are references: to a channel
  of the world, to a SockJS session of the world.
\<close>

record TerminalSession =
  id' :: string
  bound :: "nat option"
  sockJSSession :: "nat option"
  sizeChan :: "nat option"

definition zero_TerminalSession :: TerminalSession where
  "zero_TerminalSession = \<lparr>id' = [], bound = None, sockJSSession = None, sizeChan = None\<rparr>"

text \<open>
  A SockJS session as this file uses it: the results of the coming \<open>Recv\<close> calls, the
  messages given to \<open>Send\<close>, and the \<open>Close\<close> calls with their status and reason.
\<close>

record sockjs_Session =
  inbox :: "(error + string) list"
  outbox :: "string list"
  closes :: "(32 word \<times> string) list"

definition Recv :: "sockjs_Session \<Rightarrow> ((error + string) \<times> sockjs_Session) outcome" where
  "Recv s =
     (case inbox s of
        [] \<Rightarrow> Blocks
      | r # rest \<Rightarrow> Returns (r, s\<lparr>inbox := rest\<rparr>))"

text \<open>The lines that \<open>handleTerminalSession\<close> gives to \<open>log.Printf\<close>.\<close>

datatype log_line =
    CantRecv error
  | CantUnMarshal error string
  | ExpectedBind string
  | CantFindSession string

text \<open>
  The world: the global map \<open>terminalSessions\<close> (line 140), the channels and SockJS sessions
  that the sessions refer to, the log, and the calls of \<open>startProcess\<close>: \<open>attempted\<close> has
  every call, \<open>started\<close> those whose process ran, each with its command and with the SockJS
  session of the handler it was given.
\<close>

record world =
  terminalSessions :: "string \<rightharpoonup> TerminalSession"
  boundChans :: "nat \<Rightarrow> (error option) chan"
  sizeChans :: "nat \<Rightarrow> TerminalSize chan"
  sockets :: "nat \<Rightarrow> sockjs_Session"
  logged :: "log_line list"
  attempted :: "(string list \<times> nat option) list"
  started :: "(string list \<times> nat option) list"

text \<open>A map read \<open>terminalSessions[k]\<close> without the \<open>ok\<close> result: the zero value when absent.\<close>

definition session_at :: "world \<Rightarrow> string \<Rightarrow> TerminalSession" where
  "session_at w k =
     (case terminalSessions w k of None \<Rightarrow> zero_TerminalSession | Some t \<Rightarrow> t)"

subsection \<open>What the file calls and does not define\<close>

text \<open>
  \<open>exec.Stream\<close> returns when the remote process is over: it could not be started, it ran
  and the stream ended with an error, or it ran and exited.
\<close>

datatype stream_end = NotStarted error | Broke error | Exited

fun stream_error :: "stream_end \<Rightarrow> error option" where
  "stream_error (NotStarted e) = Some e"
| "stream_error (Broke e) = Some e"
| "stream_error Exited = None"

fun stream_ran :: "stream_end \<Rightarrow> bool" where
  "stream_ran (NotStarted e) = False"
| "stream_ran (Broke e) = True"
| "stream_ran Exited = True"

text \<open>
  The environment: \<open>json.Unmarshal\<close> into a \<open>TerminalMessage\<close>, \<open>remotecommand.NewExecutor\<close>
  and \<open>exec.Stream\<close>, the two last by the command they are given.
\<close>

record env =
  json_Unmarshal :: "string \<Rightarrow> error + TerminalMessage"
  NewExecutor :: "string list \<Rightarrow> error option"
  Stream :: "string list \<Rightarrow> stream_end"

subsection \<open>The methods of TerminalSession\<close>

text \<open>\<open>Next\<close> (lines 66-71): a receive on \<open>sizeChan\<close>.\<close>

definition Next :: "world \<Rightarrow> TerminalSession \<Rightarrow> (world \<times> TerminalSize) outcome" where
  "Next w t =
     (case sizeChan t of
        None \<Rightarrow> Blocks
      | Some q \<Rightarrow>
          (case chan_recv (sizeChans w q) zero_TerminalSize of
             Returns (sz, c) \<Rightarrow> Returns (w\<lparr>sizeChans := (sizeChans w)(q := c)\<rparr>, sz)
           | Blocks \<Rightarrow> Blocks
           | Panics m \<Rightarrow> Panics m))"

text \<open>The error of line 93.\<close>

definition unknown_message_type :: "string \<Rightarrow> error" where
  "unknown_message_type op = Error (''unknown message type '' @ [CHR 0x27] @ op @ [CHR 0x27])"

text \<open>
  \<open>Read\<close> (lines 75-95), on the buffer \<open>p\<close>: the world and the buffer after the call, the
  count and the error.
\<close>

definition Read ::
  "env \<Rightarrow> world \<Rightarrow> TerminalSession \<Rightarrow> string \<Rightarrow> (world \<times> string \<times> nat \<times> error option) outcome"
where
  "Read env w t p =
     (case sockJSSession t of
        None \<Rightarrow> Panics ''nil pointer dereference''
      | Some s \<Rightarrow>
          (case Recv (sockets w s) of
             Blocks \<Rightarrow> Blocks
           | Panics m \<Rightarrow> Panics m
           | Returns (r, s') \<Rightarrow>
               (let w1 = w\<lparr>sockets := (sockets w)(s := s')\<rparr> in
                case r of
                  Inl err \<Rightarrow> Returns (w1, p, 0, Some err)
                | Inr m \<Rightarrow>
                    (case json_Unmarshal env m of
                       Inl err \<Rightarrow> Returns (w1, p, 0, Some err)
                     | Inr msg \<Rightarrow>
                         if Op msg = ''stdin'' then
                           Returns (w1, fst (copy p (Data msg)), snd (copy p (Data msg)), None)
                         else if Op msg = ''resize'' then
                           (case sizeChan t of
                              None \<Rightarrow> Blocks
                            | Some q \<Rightarrow>
                                (case chan_send (sizeChans w1 q)
                                        \<lparr>Width = Cols msg, Height = Rows msg\<rparr> of
                                   Returns c \<Rightarrow>
                                     Returns (w1\<lparr>sizeChans := (sizeChans w1)(q := c)\<rparr>, p, 0, None)
                                 | Blocks \<Rightarrow> Blocks
                                 | Panics m \<Rightarrow> Panics m))
                         else Returns (w1, p, 0, Some (unknown_message_type (Op msg)))))))"

text \<open>\<open>Close\<close> (lines 134-136).\<close>

definition Close :: "world \<Rightarrow> TerminalSession \<Rightarrow> 32 word \<Rightarrow> string \<Rightarrow> world outcome" where
  "Close w t status reason =
     (case sockJSSession t of
        None \<Rightarrow> Panics ''nil pointer dereference''
      | Some s \<Rightarrow>
          Returns (w\<lparr>sockets := (sockets w)
            (s := (sockets w s)\<lparr>closes := closes (sockets w s) @ [(status, reason)]\<rparr>)\<rparr>))"

subsection \<open>handleTerminalSession\<close>

text \<open>
  A goroutine that runs \<open>handleTerminalSession(session)\<close> (lines 143-175) stands at the
  \<open>Recv\<close> of line 152, at the send of line 173 or at the map write of line 174, the two
  last with its local variables \<open>msg.SessionID\<close> and \<open>terminalSession\<close>; or it is over.
\<close>

datatype handler =
    H_recv nat
  | H_send string TerminalSession
  | H_store string TerminalSession
  | H_returned
  | H_panicked string

fun handler_step :: "env \<Rightarrow> world \<Rightarrow> handler \<Rightarrow> (world \<times> handler) option" where
  "handler_step env w (H_recv session) =
     (case Recv (sockets w session) of
        Blocks \<Rightarrow> None
      | Panics m \<Rightarrow> Some (w, H_panicked m)
      | Returns (r, s') \<Rightarrow>
          (let w1 = w\<lparr>sockets := (sockets w)(session := s')\<rparr> in
           case r of
             Inl err \<Rightarrow> Some (w1\<lparr>logged := logged w1 @ [CantRecv err]\<rparr>, H_returned)
           | Inr buf \<Rightarrow>
               (case json_Unmarshal env buf of
                  Inl err \<Rightarrow>
                    Some (w1\<lparr>logged := logged w1 @ [CantUnMarshal err buf]\<rparr>, H_returned)
                | Inr msg \<Rightarrow>
                    if Op msg \<noteq> ''bind'' then
                      Some (w1\<lparr>logged := logged w1 @ [ExpectedBind buf]\<rparr>, H_returned)
                    else
                      (case terminalSessions w1 (SessionID msg) of
                         None \<Rightarrow>
                           Some (w1\<lparr>logged := logged w1 @ [CantFindSession (SessionID msg)]\<rparr>,
                                 H_returned)
                       | Some terminalSession \<Rightarrow>
                           Some (w1, H_send (SessionID msg)
                                       (terminalSession\<lparr>sockJSSession := Some session\<rparr>))))))"
| "handler_step env w (H_send k terminalSession) =
     (case bound terminalSession of
        None \<Rightarrow> None
      | Some b \<Rightarrow>
          (case chan_send (boundChans w b) None of
             Returns c \<Rightarrow>
               Some (w\<lparr>boundChans := (boundChans w)(b := c)\<rparr>, H_store k terminalSession)
           | Blocks \<Rightarrow> None
           | Panics m \<Rightarrow> Some (w, H_panicked m)))"
| "handler_step env w (H_store k terminalSession) =
     Some (w\<lparr>terminalSessions := (terminalSessions w)(k \<mapsto> terminalSession)\<rparr>, H_returned)"
| "handler_step env w H_returned = None"
| "handler_step env w (H_panicked m) = None"

subsection \<open>startProcess, isValidShell and WaitForTerminal\<close>

text \<open>
  \<open>startProcess\<close> (lines 184-222) with the command and the handler: the error it returns.
  What the stream does with the handler while the process runs is the library's: it calls
  \<open>Read\<close>, \<open>Write\<close> and \<open>Next\<close>.
\<close>

definition startProcess ::
  "env \<Rightarrow> world \<Rightarrow> string list \<Rightarrow> TerminalSession \<Rightarrow> world \<times> error option"
where
  "startProcess env w cmd ptyHandler =
     (let w1 = w\<lparr>attempted := attempted w @ [(cmd, sockJSSession ptyHandler)]\<rparr> in
      case NewExecutor env cmd of
        Some err \<Rightarrow> (w1, Some err)
      | None \<Rightarrow>
          (if stream_ran (Stream env cmd)
           then (w1\<lparr>started := started w1 @ [(cmd, sockJSSession ptyHandler)]\<rparr>,
                 stream_error (Stream env cmd))
           else (w1, stream_error (Stream env cmd))))"

text \<open>\<open>isValidShell\<close> (lines 239-246).\<close>

fun isValidShell :: "string list \<Rightarrow> string \<Rightarrow> bool" where
  "isValidShell [] shell = False"
| "isValidShell (validShell # rest) shell =
     (if validShell = shell then True else isValidShell rest shell)"

text \<open>Line 258.\<close>

definition validShells :: "string list" where
  "validShells = [''bash'', ''sh'']"

text \<open>
  A goroutine that runs \<open>WaitForTerminal\<close> (lines 250-281) with \<open>sessionId\<close> and \<open>shell\<close>
  enters the \<open>select\<close> of line 253, where the channel of the only case is read from the
  map, once; then it stands at the receive of line 254 on that channel, at the close of
  line 255, at the test of line 260, in the loop of line 266 with the shells still to try
  and \<open>err\<close>, or at line 274 with \<open>err\<close>; or it is over. Every
  \<open>terminalSessions[sessionId]\<close> is a read of the map at that moment.
\<close>

datatype waiter =
    W_select string string
  | W_recv "nat option" string string
  | W_close string string
  | W_shell string string
  | W_try string "string list" "error option"
  | W_finish string "error option"
  | W_returned
  | W_panicked string

fun finish :: "world \<Rightarrow> world outcome \<Rightarrow> (world \<times> waiter) option" where
  "finish w (Returns w') = Some (w', W_returned)"
| "finish w Blocks = None"
| "finish w (Panics m) = Some (w, W_panicked m)"

fun waiter_step :: "env \<Rightarrow> world \<Rightarrow> waiter \<Rightarrow> (world \<times> waiter) option" where
  "waiter_step env w (W_select sessionId shell) =
     Some (w, W_recv (bound (session_at w sessionId)) sessionId shell)"
| "waiter_step env w (W_recv None sessionId shell) = None"
| "waiter_step env w (W_recv (Some b) sessionId shell) =
     (case chan_recv (boundChans w b) None of
        Returns (v, c) \<Rightarrow>
          Some (w\<lparr>boundChans := (boundChans w)(b := c)\<rparr>, W_close sessionId shell)
      | Blocks \<Rightarrow> None
      | Panics m \<Rightarrow> Some (w, W_panicked m))"
| "waiter_step env w (W_close sessionId shell) =
     (case bound (session_at w sessionId) of
        None \<Rightarrow> Some (w, W_panicked ''close of nil channel'')
      | Some b \<Rightarrow>
          (case chan_close (boundChans w b) of
             Returns c \<Rightarrow>
               Some (w\<lparr>boundChans := (boundChans w)(b := c)\<rparr>, W_shell sessionId shell)
           | Blocks \<Rightarrow> None
           | Panics m \<Rightarrow> Some (w, W_panicked m)))"
| "waiter_step env w (W_shell sessionId shell) =
     (if isValidShell validShells shell then
        (case startProcess env w [shell] (session_at w sessionId) of
           (w', err) \<Rightarrow> Some (w', W_finish sessionId err))
      else Some (w, W_try sessionId validShells None))"
| "waiter_step env w (W_try sessionId [] err) = Some (w, W_finish sessionId err)"
| "waiter_step env w (W_try sessionId (testShell # rest) err) =
     (case startProcess env w [testShell] (session_at w sessionId) of
        (w', None) \<Rightarrow> Some (w', W_finish sessionId None)
      | (w', Some e) \<Rightarrow> Some (w', W_try sessionId rest (Some e)))"
| "waiter_step env w (W_finish sessionId err) =
     (case err of
        Some e \<Rightarrow> finish w (Close w (session_at w sessionId) 2 (Error_text e))
      | None \<Rightarrow> finish w (Close w (session_at w sessionId) 1 ''Process exited''))"
| "waiter_step env w W_returned = None"
| "waiter_step env w (W_panicked m) = None"

subsection \<open>Goroutines under a schedule\<close>

text \<open>
  The program state: the world, the goroutines that run \<open>handleTerminalSession\<close> and those
  that run \<open>WaitForTerminal\<close>. A schedule names the goroutine that takes each step; it is
  refused (\<open>None\<close>) when it names a goroutine that is absent, over or blocked.
\<close>

record sys =
  world_of :: world
  handlers :: "handler list"
  waiters :: "waiter list"

datatype goroutine = Handler nat | Waiter nat

fun sys_step :: "env \<Rightarrow> sys \<Rightarrow> goroutine \<Rightarrow> sys option" where
  "sys_step env s (Handler i) =
     (if i < length (handlers s) then
        (case handler_step env (world_of s) (handlers s ! i) of
           None \<Rightarrow> None
         | Some (w', h') \<Rightarrow> Some (s\<lparr>world_of := w', handlers := (handlers s)[i := h']\<rparr>))
      else None)"
| "sys_step env s (Waiter i) =
     (if i < length (waiters s) then
        (case waiter_step env (world_of s) (waiters s ! i) of
           None \<Rightarrow> None
         | Some (w', g') \<Rightarrow> Some (s\<lparr>world_of := w', waiters := (waiters s)[i := g']\<rparr>))
      else None)"

fun run :: "env \<Rightarrow> goroutine list \<Rightarrow> sys \<Rightarrow> sys option" where
  "run env [] s = Some s"
| "run env (g # gs) s =
     (case sys_step env s g of
        None \<Rightarrow> None
      | Some s' \<Rightarrow> run env gs s')"

text \<open>A goroutine of \<open>WaitForTerminal\<close> running alone, for at most \<open>n\<close> steps.\<close>

fun waiter_run :: "env \<Rightarrow> nat \<Rightarrow> world \<Rightarrow> waiter \<Rightarrow> world \<times> waiter" where
  "waiter_run env 0 w g = (w, g)"
| "waiter_run env (Suc n) w g =
     (case waiter_step env w g of
        None \<Rightarrow> (w, g)
      | Some (w', g') \<Rightarrow> waiter_run env n w' g')"

text \<open>
  The library calls \<open>Next\<close> in a loop as long as the process runs (line 65): \<open>n\<close> calls in
  a row and the sizes they return.
\<close>

fun Next_loop :: "nat \<Rightarrow> world \<Rightarrow> TerminalSession \<Rightarrow> (world \<times> TerminalSize list) outcome" where
  "Next_loop 0 w t = Returns (w, [])"
| "Next_loop (Suc n) w t =
     (case Next w t of
        Blocks \<Rightarrow> Blocks
      | Panics m \<Rightarrow> Panics m
      | Returns (w', sz) \<Rightarrow>
          (case Next_loop n w' t of
             Blocks \<Rightarrow> Blocks
           | Panics m \<Rightarrow> Panics m
           | Returns (w'', szs) \<Rightarrow> Returns (w'', sz # szs)))"

text \<open>
  What is read off a program state: the registry's lookup, the \<open>Close\<close> calls on a SockJS
  session, and the processes that \<open>startProcess\<close> started.
\<close>

definition lookup :: "string \<Rightarrow> sys \<Rightarrow> TerminalSession option" where
  "lookup k s = terminalSessions (world_of s) k"

definition closes_on :: "nat \<Rightarrow> sys \<Rightarrow> (32 word \<times> string) list" where
  "closes_on c s = closes (sockets (world_of s) c)"

definition started_in :: "sys \<Rightarrow> (string list \<times> nat option) list" where
  "started_in s = started (world_of s)"

text \<open>
  A shell starts in the container when its process runs; \<open>startProcess\<close> succeeds on it
  when, beyond that, the stream ends without an error.
\<close>

definition starts :: "env \<Rightarrow> string \<Rightarrow> bool" where
  "starts env shell \<longleftrightarrow> NewExecutor env [shell] = None \<and> stream_ran (Stream env [shell])"

definition succeeds :: "env \<Rightarrow> string \<Rightarrow> bool" where
  "succeeds env shell \<longleftrightarrow> NewExecutor env [shell] = None \<and> Stream env [shell] = Exited"

text \<open>
  The shells of a list up to and with the first one on which \<open>startProcess\<close> succeeds, and
  the shells that \<open>WaitForTerminal\<close> is to run for the shell asked for.
\<close>

fun tried :: "env \<Rightarrow> string list \<Rightarrow> string list" where
  "tried env [] = []"
| "tried env (shell # rest) = (if succeeds env shell then [shell] else shell # tried env rest)"

definition shells_run :: "env \<Rightarrow> string \<Rightarrow> string list" where
  "shells_run env shell =
     (if isValidShell validShells shell then [shell] else tried env validShells)"

text \<open>
  The error that \<open>startProcess\<close> returns for a command (lines 204-221), and the error that
  the launch of \<open>WaitForTerminal\<close> ends with: the one of the last shell it runs.
\<close>

definition exec_error :: "env \<Rightarrow> string list \<Rightarrow> error option" where
  "exec_error env cmd =
     (case NewExecutor env cmd of
        Some err \<Rightarrow> Some err
      | None \<Rightarrow> stream_error (Stream env cmd))"

definition launch_error :: "env \<Rightarrow> string \<Rightarrow> error option" where
  "launch_error env shell = exec_error env [last (shells_run env shell)]"

text \<open>The world once the next message of the SockJS session \<open>s\<close> has been taken by \<open>Recv\<close>.\<close>

definition received :: "world \<Rightarrow> nat \<Rightarrow> world" where
  "received w s = w\<lparr>sockets := (sockets w)(s := (sockets w s)\<lparr>inbox := tl (inbox (sockets w s))\<rparr>)\<rparr>"

subsection \<open>Scenarios\<close>

text \<open>
  The frames of the scenarios, as the browser sends them, and what \<open>json.Unmarshal\<close> makes
  of each.
\<close>

definition frame_bind :: "string \<Rightarrow> string" where
  "frame_bind k = ''{\"Op\":\"bind\",\"SessionID\":\"'' @ k @ ''\"}''"

definition frame_stdin :: "string \<Rightarrow> string" where
  "frame_stdin d = ''{\"Op\":\"stdin\",\"Data\":\"'' @ d @ ''\"}''"

definition frame_resize :: string where
  "frame_resize = ''{\"Op\":\"resize\",\"Rows\":24,\"Cols\":80}''"

definition frame_resize_wide :: string where
  "frame_resize_wide = ''{\"Op\":\"resize\",\"Rows\":50,\"Cols\":132}''"

definition frame_ping :: string where
  "frame_ping = ''{\"Op\":\"ping\"}''"

definition frame_cut :: string where
  "frame_cut = ''{\"Op\":\"stdin\",''"

definition zero_TerminalMessage :: TerminalMessage where
  "zero_TerminalMessage = \<lparr>Op = [], Data = [], SessionID = [], Rows = 0, Cols = 0\<rparr>"

definition scenario_Unmarshal :: "string \<Rightarrow> error + TerminalMessage" where
  "scenario_Unmarshal buf =
     (if buf = frame_bind ''abc123''
        then Inr (zero_TerminalMessage\<lparr>Op := ''bind'', SessionID := ''abc123''\<rparr>)
      else if buf = frame_bind ''doesnotexist''
        then Inr (zero_TerminalMessage\<lparr>Op := ''bind'', SessionID := ''doesnotexist''\<rparr>)
      else if buf = frame_stdin ''ls''
        then Inr (zero_TerminalMessage\<lparr>Op := ''stdin'', Data := ''ls''\<rparr>)
      else if buf = frame_stdin ''echo hello''
        then Inr (zero_TerminalMessage\<lparr>Op := ''stdin'', Data := ''echo hello''\<rparr>)
      else if buf = frame_stdin ''echo''
        then Inr (zero_TerminalMessage\<lparr>Op := ''stdin'', Data := ''echo''\<rparr>)
      else if buf = frame_resize
        then Inr (zero_TerminalMessage\<lparr>Op := ''resize'', Rows := 24, Cols := 80\<rparr>)
      else if buf = frame_resize_wide
        then Inr (zero_TerminalMessage\<lparr>Op := ''resize'', Rows := 50, Cols := 132\<rparr>)
      else if buf = frame_ping
        then Inr (zero_TerminalMessage\<lparr>Op := ''ping''\<rparr>)
      else Inl (Error ''unexpected end of JSON input''))"

text \<open>
  Three containers: every shell runs and exits; \<open>bash\<close> runs and its stream ends with an
  error; \<open>bash\<close> is not installed.
\<close>

definition all_exit :: "string list \<Rightarrow> stream_end" where
  "all_exit cmd = Exited"

definition bash_breaks :: "string list \<Rightarrow> stream_end" where
  "bash_breaks cmd =
     (if cmd = [''bash''] then Broke (Error ''command terminated with exit code 130'')
      else Exited)"

definition bash_missing :: "string list \<Rightarrow> stream_end" where
  "bash_missing cmd =
     (if cmd = [''bash''] then NotStarted (Error ''executable file not found in $PATH'')
      else Exited)"

definition no_executor_error :: "string list \<Rightarrow> error option" where
  "no_executor_error cmd = None"

definition scenario :: "(string list \<Rightarrow> stream_end) \<Rightarrow> env" where
  "scenario stream =
     \<lparr>json_Unmarshal = scenario_Unmarshal, NewExecutor = no_executor_error, Stream = stream\<rparr>"

text \<open>
  The world once the request handler has registered the session \<open>abc123\<close>, unbound, with
  its two channels open and empty; \<open>frames s\<close> is what the browser sends on the SockJS
  session \<open>s\<close>.
\<close>

definition registered :: "(nat \<Rightarrow> (error + string) list) \<Rightarrow> world" where
  "registered frames =
     \<lparr>terminalSessions =
        [''abc123'' \<mapsto>
           \<lparr>id' = ''abc123'', bound = Some 0, sockJSSession = None, sizeChan = Some 0\<rparr>],
      boundChans = (\<lambda>b. \<lparr>chan_queue = [], chan_closed = False\<rparr>),
      sizeChans = (\<lambda>q. \<lparr>chan_queue = [], chan_closed = False\<rparr>),
      sockets = (\<lambda>s. \<lparr>inbox = frames s, outbox = [], closes = []\<rparr>),
      logged = [], attempted = [], started = []\<rparr>"

text \<open>
  Two browsers that each open a connection and send \<open>bind\<close> for \<open>abc123\<close>, and the goroutine
  of \<open>WaitForTerminal\<close> for \<open>abc123\<close> with the shell asked for.
\<close>

definition bind_abc123 :: "nat \<Rightarrow> (error + string) list" where
  "bind_abc123 s = [Inr (frame_bind ''abc123'')]"

definition two_binds :: "string \<Rightarrow> sys" where
  "two_binds shell =
     \<lparr>world_of = registered bind_abc123,
      handlers = [H_recv 1, H_recv 2],
      waiters = [W_select ''abc123'' shell]\<rparr>"

text \<open>The session \<open>abc123\<close> bound to the SockJS session 1, and the world that holds it.\<close>

definition attached :: TerminalSession where
  "attached = \<lparr>id' = ''abc123'', bound = Some 0, sockJSSession = Some 1, sizeChan = Some 0\<rparr>"

definition no_frames :: "nat \<Rightarrow> (error + string) list" where
  "no_frames s = []"

definition attached_world :: world where
  "attached_world = (registered no_frames)\<lparr>terminalSessions := [''abc123'' \<mapsto> attached]\<rparr>"

section \<open>Properties\<close>

lemmas scenario_defs = scenario_def no_executor_error_def scenario_Unmarshal_def frame_bind_def
  frame_stdin_def frame_resize_def frame_resize_wide_def frame_ping_def frame_cut_def
  zero_TerminalMessage_def registered_def

lemmas run_defs = two_binds_def bind_abc123_def all_exit_def bash_breaks_def bash_missing_def
  lookup_def closes_on_def started_in_def attached_def
  Recv_def chan_send_def chan_recv_def chan_close_def session_at_def startProcess_def
  validShells_def Close_def

subsection \<open>Steps and the registry\<close>





subsection \<open>The launch loop, run to its end\<close>

text \<open>
  What \<open>startProcess\<close> leaves for a single shell, and when it returns no error.
\<close>

lemma startProcess_shell:
  "startProcess env w [shell] t =
     (w\<lparr>attempted := attempted w @ [([shell], sockJSSession t)],
        started := started w @ (if starts env shell then [([shell], sockJSSession t)] else [])\<rparr>,
      snd (startProcess env w [shell] t))"
  by (cases "Stream env [shell]")
     (auto simp: startProcess_def starts_def Let_def split: option.splits)

lemma startProcess_succeeds:
  "snd (startProcess env w [shell] t) = None \<longleftrightarrow> succeeds env shell"
  by (cases "Stream env [shell]")
     (auto simp: startProcess_def succeeds_def Let_def split: option.splits)

lemma waiter_run_step:
  "waiter_step env w g = Some (w1, g1) \<Longrightarrow> waiter_run env (Suc n) w g = waiter_run env n w1 g1"
  by simp

lemma waiter_run_returned:
  "waiter_run env n w W_returned = (w, W_returned)"
  by (cases n) simp_all

lemma finish_attached:
  assumes "sockJSSession (session_at w sessionId) = Some c"
  shows "waiter_run env (Suc n) w (W_finish sessionId err) =
     (w\<lparr>sockets := (sockets w)(c := (sockets w c)\<lparr>closes := closes (sockets w c) @
           [case err of Some e \<Rightarrow> (2, Error_text e) | None \<Rightarrow> (1, ''Process exited'')]\<rparr>)\<rparr>,
      W_returned)"
  using assms by (cases err) (simp_all add: Close_def waiter_run_returned)

lemma try_run:
  assumes "sockJSSession (session_at w sessionId) = Some c"
  shows "\<exists>w'. waiter_run env (length shells + 2 + n) w (W_try sessionId shells err) = (w', W_returned)
     \<and> attempted w' = attempted w @ map (\<lambda>sh. ([sh], Some c)) (tried env shells)
     \<and> started w' = started w @ map (\<lambda>sh. ([sh], Some c)) (filter (starts env) (tried env shells))
     \<and> length (closes (sockets w' c)) = Suc (length (closes (sockets w c)))"
  using assms
proof (induction shells arbitrary: w err)
  case Nil
  have "waiter_run env (length [] + 2 + n) w (W_try sessionId [] err)
      = waiter_run env (Suc n) w (W_finish sessionId err)"
    by simp
  then show ?case
    by (simp add: finish_attached [OF Nil.prems] del: waiter_run.simps)
next
  case (Cons sh shells)
  let ?t = "session_at w sessionId"
  let ?w1 = "w\<lparr>attempted := attempted w @ [([sh], Some c)],
        started := started w @ (if starts env sh then [([sh], Some c)] else [])\<rparr>"
  have sp: "startProcess env w [sh] ?t = (?w1, snd (startProcess env w [sh] ?t))"
    using Cons.prems by (subst startProcess_shell) simp
  have att: "sockJSSession (session_at ?w1 sessionId) = Some c"
    using Cons.prems by (simp add: session_at_def)
  show ?case
  proof (cases "succeeds env sh")
    case True
    then have "snd (startProcess env w [sh] ?t) = None"
      by (simp add: startProcess_succeeds)
    with sp have st: "startProcess env w [sh] ?t = (?w1, None)"
      by simp
    have run: "waiter_run env (length (sh # shells) + 2 + n) w (W_try sessionId (sh # shells) err)
        = waiter_run env (Suc (Suc (length shells + n))) ?w1 (W_finish sessionId None)"
      using waiter_run_step [of env w "W_try sessionId (sh # shells) err" ?w1
          "W_finish sessionId None" "Suc (Suc (length shells + n))"]
      by (simp add: st del: waiter_run.simps)
    show ?thesis
      unfolding run using True by (simp add: finish_attached [OF att] del: waiter_run.simps)
  next
    case False
    then obtain e where "snd (startProcess env w [sh] ?t) = Some e"
      using startProcess_succeeds [of env w sh ?t] by (cases "snd (startProcess env w [sh] ?t)") auto
    with sp have st: "startProcess env w [sh] ?t = (?w1, Some e)"
      by simp
    have run: "waiter_run env (length (sh # shells) + 2 + n) w (W_try sessionId (sh # shells) err)
        = waiter_run env (length shells + 2 + n) ?w1 (W_try sessionId shells (Some e))"
      using waiter_run_step [of env w "W_try sessionId (sh # shells) err" ?w1
          "W_try sessionId shells (Some e)" "length shells + 2 + n"]
      by (simp add: st del: waiter_run.simps)
    from Cons.IH [OF att, of "Some e"] obtain w' where
      "waiter_run env (length shells + 2 + n) ?w1 (W_try sessionId shells (Some e)) = (w', W_returned)"
      "attempted w' = attempted ?w1 @ map (\<lambda>sh. ([sh], Some c)) (tried env shells)"
      "started w' = started ?w1 @ map (\<lambda>sh. ([sh], Some c)) (filter (starts env) (tried env shells))"
      "length (closes (sockets w' c)) = Suc (length (closes (sockets ?w1 c)))"
      by blast
    then show ?thesis
      unfolding run using False by (auto simp del: waiter_run.simps)
  qed
qed

text \<open>
  On a session that the map holds attached, from the test of line 260 on: \<open>WaitForTerminal\<close>
  returns, and the one \<open>Close\<close> call it has made on the connection has status 2 and the
  text of the error that the launch ended with, or status 1 and \<open>Process exited\<close> when it
  ended with none.
\<close>

lemma startProcess_error:
  "snd (startProcess env w cmd t) = exec_error env cmd"
  by (simp add: startProcess_def exec_error_def Let_def split: option.splits)

lemma exec_error_succeeds:
  "exec_error env [shell] = None \<longleftrightarrow> succeeds env shell"
  using startProcess_succeeds [of env undefined shell undefined]
  by (simp add: startProcess_error)

lemma tried_Nil:
  "tried env shells = [] \<longleftrightarrow> shells = []"
  by (cases shells) simp_all

lemma try_run_status:
  assumes "sockJSSession (session_at w sessionId) = Some c"
  shows "\<exists>w'. waiter_run env (length shells + 2 + n) w (W_try sessionId shells err) = (w', W_returned)
     \<and> closes (sockets w' c) = closes (sockets w c) @
          [case (if shells = [] then err else exec_error env [last (tried env shells)]) of
             Some e \<Rightarrow> (2, Error_text e)
           | None \<Rightarrow> (1, ''Process exited'')]"
  using assms
proof (induction shells arbitrary: w err)
  case Nil
  have "waiter_run env (length [] + 2 + n) w (W_try sessionId [] err)
      = waiter_run env (Suc n) w (W_finish sessionId err)"
    by simp
  then show ?case
    by (simp add: finish_attached [OF Nil.prems] del: waiter_run.simps)
next
  case (Cons sh shells)
  let ?t = "session_at w sessionId"
  let ?w1 = "w\<lparr>attempted := attempted w @ [([sh], Some c)],
        started := started w @ (if starts env sh then [([sh], Some c)] else [])\<rparr>"
  have sp: "startProcess env w [sh] ?t = (?w1, exec_error env [sh])"
    using Cons.prems by (subst startProcess_shell) (simp add: startProcess_error)
  have att: "sockJSSession (session_at ?w1 sessionId) = Some c"
    using Cons.prems by (simp add: session_at_def)
  have cl: "closes (sockets ?w1 c) = closes (sockets w c)"
    by simp
  show ?case
  proof (cases "exec_error env [sh]")
    case None
    then have suc: "succeeds env sh"
      by (simp add: exec_error_succeeds)
    have run: "waiter_run env (length (sh # shells) + 2 + n) w (W_try sessionId (sh # shells) err)
        = waiter_run env (Suc (Suc (length shells + n))) ?w1 (W_finish sessionId None)"
      using waiter_run_step [of env w "W_try sessionId (sh # shells) err" ?w1
          "W_finish sessionId None" "Suc (Suc (length shells + n))"]
      by (simp add: sp None del: waiter_run.simps)
    show ?thesis
      unfolding run using suc None by (simp add: finish_attached [OF att] del: waiter_run.simps)
  next
    case (Some e)
    then have nsuc: "\<not> succeeds env sh"
      by (simp add: exec_error_succeeds [symmetric])
    have run: "waiter_run env (length (sh # shells) + 2 + n) w (W_try sessionId (sh # shells) err)
        = waiter_run env (length shells + 2 + n) ?w1 (W_try sessionId shells (Some e))"
      using waiter_run_step [of env w "W_try sessionId (sh # shells) err" ?w1
          "W_try sessionId shells (Some e)" "length shells + 2 + n"]
      by (simp add: sp Some del: waiter_run.simps)
    from Cons.IH [OF att, of "Some e"] obtain w' where
      r: "waiter_run env (length shells + 2 + n) ?w1 (W_try sessionId shells (Some e)) = (w', W_returned)"
      and c: "closes (sockets w' c) = closes (sockets ?w1 c) @
          [case (if shells = [] then Some e else exec_error env [last (tried env shells)]) of
             Some e \<Rightarrow> (2, Error_text e)
           | None \<Rightarrow> (1, ''Process exited'')]"
      by blast
    have fin: "(if shells = [] then Some e else exec_error env [last (tried env shells)])
        = exec_error env [last (tried env (sh # shells))]"
      using nsuc Some by (simp add: tried_Nil)
    show ?thesis
      unfolding run using r c fin cl by (simp del: waiter_run.simps)
  qed
qed

lemma attached_run_closes:
  assumes att: "sockJSSession (session_at w sessionId) = Some c"
  shows "\<exists>w'. waiter_run env 6 w (W_shell sessionId shell) = (w', W_returned)
     \<and> closes (sockets w' c) = closes (sockets w c) @
          [case launch_error env shell of
             Some e \<Rightarrow> (2, Error_text e)
           | None \<Rightarrow> (1, ''Process exited'')]"
proof (cases "isValidShell validShells shell")
  case True
  let ?w1 = "w\<lparr>attempted := attempted w @ [([shell], Some c)],
      started := started w @ (if starts env shell then [([shell], Some c)] else [])\<rparr>"
  have sp: "startProcess env w [shell] (session_at w sessionId) = (?w1, exec_error env [shell])"
    using att by (subst startProcess_shell) (simp add: startProcess_error)
  have att1: "sockJSSession (session_at ?w1 sessionId) = Some c"
    using att by (simp add: session_at_def)
  have step: "waiter_step env w (W_shell sessionId shell)
      = Some (?w1, W_finish sessionId (exec_error env [shell]))"
    using True by (subst waiter_step.simps, subst sp) simp
  have run: "waiter_run env 6 w (W_shell sessionId shell)
      = waiter_run env (Suc 4) ?w1 (W_finish sessionId (exec_error env [shell]))"
    using waiter_run_step [OF step, of 5] by (simp del: waiter_run.simps)
  show ?thesis
    unfolding run finish_attached [OF att1] using True
    by (simp add: launch_error_def shells_run_def)
next
  case False
  have step: "waiter_step env w (W_shell sessionId shell) = Some (w, W_try sessionId validShells None)"
    using False by simp
  have five: "length validShells + 2 + 1 = (5::nat)"
    by (simp add: validShells_def)
  have six: "(6::nat) = Suc 5"
    by simp
  have run: "waiter_run env 6 w (W_shell sessionId shell)
      = waiter_run env (length validShells + 2 + 1) w (W_try sessionId validShells None)"
    unfolding five six by (rule waiter_run_step [OF step])
  have ne: "validShells \<noteq> []"
    by (simp add: validShells_def)
  from try_run_status [OF att, of env validShells 1 None] show ?thesis
    unfolding run using False ne by (simp add: launch_error_def shells_run_def del: waiter_run.simps)
qed

subsection \<open>Binding\<close>

text \<open>
  C1. A second \<open>bind\<close> for an id that is already bound should be turned away and leave the
  session on one connection, with nothing crashing. Here the browser of connection 1 binds
  \<open>abc123\<close>, the goroutine of \<open>WaitForTerminal\<close> receives the signal and closes \<open>bound\<close>
  (line 255), and then the browser of connection 2 sends the same \<open>bind\<close>: the entry is still
  in the map, so the lookup of line 167 succeeds, and the send of line 173 is a send on a
  closed channel. The second handler panics; the map still holds connection 1.
\<close>

theorem second_bind_panics:
  "map_option handlers
     (run (scenario all_exit)
        [Waiter 0, Handler 0, Handler 0, Waiter 0, Handler 0, Waiter 0, Handler 1, Handler 1]
        (two_binds []))
     = Some [H_returned, H_panicked ''send on closed channel'']
   \<and> map_option waiters
     (run (scenario all_exit)
        [Waiter 0, Handler 0, Handler 0, Waiter 0, Handler 0, Waiter 0, Handler 1, Handler 1]
        (two_binds []))
     = Some [W_shell ''abc123'' []]
   \<and> map_option (lookup ''abc123'')
     (run (scenario all_exit)
        [Waiter 0, Handler 0, Handler 0, Waiter 0, Handler 0, Waiter 0, Handler 1, Handler 1]
        (two_binds []))
     = Some (Some attached)"
  by (simp add: scenario_defs run_defs)

text \<open>
  C4. The launcher should only ever get a session with its connection attached. The
  signal of line 173 is sent before the map write of line 174: in the schedule below the
  goroutine of \<open>WaitForTerminal\<close> receives it, closes \<open>bound\<close> and calls \<open>startProcess\<close> with
  \<open>terminalSessions[sessionId]\<close> while the handler still stands before line 174. The process
  is started on a handler whose \<open>sockJSSession\<close> is nil.
\<close>

theorem launcher_gets_nil_connection:
  "map_option started_in
     (run (scenario all_exit)
        [Waiter 0, Handler 0, Handler 0, Waiter 0, Waiter 0, Waiter 0, Waiter 0]
        (two_binds []))
     = Some [([''bash''], None)]
   \<and> map_option handlers
     (run (scenario all_exit)
        [Waiter 0, Handler 0, Handler 0, Waiter 0, Waiter 0, Waiter 0, Waiter 0]
        (two_binds []))
     = Some [H_store ''abc123'' attached, H_recv 2]"
  by (simp add: scenario_defs run_defs)

text \<open>
  C7. When the first message of a connection does not decode, or is not a \<open>bind\<close>, or names
  a session that the map does not hold, \<open>handleTerminalSession\<close> returns at once: the map,
  the channels (so no \<open>bound\<close> is signalled), what was sent on every connection and the
  \<open>Close\<close> calls are as before; only the message is consumed and a line is logged.
\<close>

theorem handleTerminalSession_abort:
  assumes recv: "inbox (sockets w session) = Inr buf # rest"
    and bad: "(\<exists>err. json_Unmarshal env buf = Inl err) \<or>
              (\<exists>msg. json_Unmarshal env buf = Inr msg \<and>
                 (Op msg \<noteq> ''bind'' \<or> terminalSessions w (SessionID msg) = None))"
  shows "\<exists>w'. handler_step env w (H_recv session) = Some (w', H_returned)
           \<and> handler_step env w' H_returned = None
           \<and> terminalSessions w' = terminalSessions w
           \<and> boundChans w' = boundChans w
           \<and> sizeChans w' = sizeChans w
           \<and> (\<forall>s. outbox (sockets w' s) = outbox (sockets w s))
           \<and> (\<forall>s. closes (sockets w' s) = closes (sockets w s))
           \<and> attempted w' = attempted w \<and> started w' = started w"
  using bad
proof (elim disjE exE conjE)
  fix err assume "json_Unmarshal env buf = Inl err"
  with recv show ?thesis by (auto simp: Recv_def Let_def)
next
  fix msg assume "json_Unmarshal env buf = Inr msg" "Op msg \<noteq> ''bind''"
  with recv show ?thesis by (auto simp: Recv_def Let_def)
next
  fix msg assume "json_Unmarshal env buf = Inr msg" "terminalSessions w (SessionID msg) = None"
  with recv show ?thesis by (auto simp: Recv_def Let_def)
qed

theorem handleTerminalSession_abort_witness:
  "(\<exists>w'. handler_step (scenario all_exit) (registered (\<lambda>s. [Inr frame_cut])) (H_recv 1)
            = Some (w', H_returned)
          \<and> terminalSessions w' = terminalSessions (registered (\<lambda>s. [Inr frame_cut]))
          \<and> boundChans w' = boundChans (registered (\<lambda>s. [Inr frame_cut])))
   \<and> (\<exists>w'. handler_step (scenario all_exit) (registered (\<lambda>s. [Inr (frame_stdin ''ls'')])) (H_recv 1)
            = Some (w', H_returned)
          \<and> terminalSessions w' = terminalSessions (registered (\<lambda>s. [Inr (frame_stdin ''ls'')]))
          \<and> boundChans w' = boundChans (registered (\<lambda>s. [Inr (frame_stdin ''ls'')])))
   \<and> (\<exists>w'. handler_step (scenario all_exit) (registered (\<lambda>s. [Inr (frame_bind ''doesnotexist'')])) (H_recv 1)
            = Some (w', H_returned)
          \<and> terminalSessions w' = terminalSessions (registered (\<lambda>s. [Inr (frame_bind ''doesnotexist'')]))
          \<and> boundChans w' = boundChans (registered (\<lambda>s. [Inr (frame_bind ''doesnotexist'')])))"
proof -
  let ?env = "scenario all_exit"
  have a: "\<exists>err. json_Unmarshal ?env frame_cut = Inl err"
    by (simp add: scenario_defs)
  have b: "\<exists>msg. json_Unmarshal ?env (frame_stdin ''ls'') = Inr msg \<and>
             (Op msg \<noteq> ''bind'' \<or> terminalSessions (registered (\<lambda>s. [Inr (frame_stdin ''ls'')])) (SessionID msg) = None)"
    by (simp add: scenario_defs)
  have c: "\<exists>msg. json_Unmarshal ?env (frame_bind ''doesnotexist'') = Inr msg \<and>
             (Op msg \<noteq> ''bind'' \<or> terminalSessions (registered (\<lambda>s. [Inr (frame_bind ''doesnotexist'')])) (SessionID msg) = None)"
    by (simp add: scenario_defs)
  have i: "\<And>f. inbox (sockets (registered (\<lambda>s. [Inr f])) 1) = Inr f # []"
    by (simp add: registered_def)
  show ?thesis
    using handleTerminalSession_abort [OF i disjI1, OF a]
      handleTerminalSession_abort [OF i disjI2, OF b]
      handleTerminalSession_abort [OF i disjI2, OF c]
    by blast
qed

subsection \<open>Closing\<close>




text \<open>
  C6. When the launcher is over the session should always be closed, by one \<open>Close\<close> call.
  The schedule is the one of C4 with one more step: the handler still stands before the
  map write of line 174 when \<open>bash\<close> has run and exited, so line 279 calls \<open>Close\<close> on a
  session whose \<open>sockJSSession\<close> is nil. The call panics, and no \<open>Close\<close> call has been made
  on either connection.
\<close>

theorem launcher_over_no_close:
  "map_option waiters
     (run (scenario all_exit)
        [Waiter 0, Handler 0, Handler 0, Waiter 0, Waiter 0, Waiter 0, Waiter 0, Waiter 0]
        (two_binds []))
     = Some [W_panicked ''nil pointer dereference'']
   \<and> map_option started_in
     (run (scenario all_exit)
        [Waiter 0, Handler 0, Handler 0, Waiter 0, Waiter 0, Waiter 0, Waiter 0, Waiter 0]
        (two_binds []))
     = Some [([''bash''], None)]
   \<and> map_option (closes_on 1)
     (run (scenario all_exit)
        [Waiter 0, Handler 0, Handler 0, Waiter 0, Waiter 0, Waiter 0, Waiter 0, Waiter 0]
        (two_binds []))
     = Some []
   \<and> map_option (closes_on 2)
     (run (scenario all_exit)
        [Waiter 0, Handler 0, Handler 0, Waiter 0, Waiter 0, Waiter 0, Waiter 0, Waiter 0]
        (two_binds []))
     = Some []"
  by (simp add: scenario_defs run_defs)

subsection \<open>Shell selection\<close>

text \<open>
  C5, as the claim has it: without a valid shell the launcher stops at the first
  allow-listed shell that starts. In the container below \<open>bash\<close> starts and its stream ends
  with an error: \<open>sh\<close> is started after it, so two processes have run.
\<close>

theorem launcher_goes_on_after_started_shell:
  "starts (scenario bash_breaks) ''bash''
   \<and> map fst (started (fst (waiter_run (scenario bash_breaks) 6 attached_world (W_shell ''abc123'' []))))
       = [[''bash''], [''sh'']]"
  by (simp add: scenario_defs run_defs starts_def attached_world_def no_frames_def
        eval_nat_numeral)

text \<open>
  C5, amended. On an attached session \<open>WaitForTerminal\<close> calls \<open>startProcess\<close> for the shells
  of \<open>shells_run\<close>, in that order, and returns: the shell asked for when it is \<open>bash\<close> or
  \<open>sh\<close>; otherwise \<open>bash\<close>, and then \<open>sh\<close> unless \<open>startProcess\<close> returned no error for
  \<open>bash\<close>, that is unless \<open>bash\<close> started and its stream ended without an error. The
  processes that ran are those of these shells that started.
\<close>

theorem WaitForTerminal_shell_selection:
  assumes att: "sockJSSession (session_at w sessionId) = Some c"
  shows "(\<exists>w'. waiter_run env 6 w (W_shell sessionId shell) = (w', W_returned)
       \<and> attempted w' = attempted w @ map (\<lambda>sh. ([sh], Some c)) (shells_run env shell)
       \<and> started w' =
           started w @ map (\<lambda>sh. ([sh], Some c)) (filter (starts env) (shells_run env shell)))
     \<and> shells_run env shell =
         (if shell = ''bash'' \<or> shell = ''sh'' then [shell]
          else if succeeds env ''bash'' then [''bash'']
          else [''bash'', ''sh''])"
proof (intro conjI)
  show "shells_run env shell =
         (if shell = ''bash'' \<or> shell = ''sh'' then [shell]
          else if succeeds env ''bash'' then [''bash'']
          else [''bash'', ''sh''])"
    by (auto simp: shells_run_def validShells_def)
next
  show "\<exists>w'. waiter_run env 6 w (W_shell sessionId shell) = (w', W_returned)
       \<and> attempted w' = attempted w @ map (\<lambda>sh. ([sh], Some c)) (shells_run env shell)
       \<and> started w' =
           started w @ map (\<lambda>sh. ([sh], Some c)) (filter (starts env) (shells_run env shell))"
  proof (cases "isValidShell validShells shell")
    case True
    let ?w1 = "w\<lparr>attempted := attempted w @ [([shell], Some c)],
        started := started w @ (if starts env shell then [([shell], Some c)] else [])\<rparr>"
    have sp: "startProcess env w [shell] (session_at w sessionId)
        = (?w1, snd (startProcess env w [shell] (session_at w sessionId)))"
      using att by (subst startProcess_shell) simp
    have att1: "sockJSSession (session_at ?w1 sessionId) = Some c"
      using att by (simp add: session_at_def)
    have step: "waiter_step env w (W_shell sessionId shell)
        = Some (?w1, W_finish sessionId (snd (startProcess env w [shell] (session_at w sessionId))))"
      using True by (subst waiter_step.simps, subst sp) simp
    have run: "waiter_run env 6 w (W_shell sessionId shell)
        = waiter_run env (Suc 4) ?w1
            (W_finish sessionId (snd (startProcess env w [shell] (session_at w sessionId))))"
      using waiter_run_step [OF step, of 5] by (simp del: waiter_run.simps)
    show ?thesis
      unfolding run finish_attached [OF att1] using True by (simp add: shells_run_def)
  next
    case False
    have step: "waiter_step env w (W_shell sessionId shell) = Some (w, W_try sessionId validShells None)"
      using False by simp
    have five: "length validShells + 2 + 1 = (5::nat)"
      by (simp add: validShells_def)
    have six: "(6::nat) = Suc 5"
      by simp
    have run: "waiter_run env 6 w (W_shell sessionId shell)
        = waiter_run env (length validShells + 2 + 1) w (W_try sessionId validShells None)"
      unfolding five six by (rule waiter_run_step [OF step])
    from try_run [OF att, of env validShells 1 None] show ?thesis
      unfolding run using False by (auto simp: shells_run_def)
  qed
qed

theorem WaitForTerminal_shell_selection_witness:
  "sockJSSession (session_at attached_world ''abc123'') = Some 1
   \<and> (\<exists>w'. waiter_run (scenario bash_missing) 6 attached_world (W_shell ''abc123'' [])
              = (w', W_returned)
          \<and> attempted w' = [([''bash''], Some 1), ([''sh''], Some 1)]
          \<and> started w' = [([''sh''], Some 1)])
   \<and> (\<exists>w'. waiter_run (scenario bash_missing) 6 attached_world (W_shell ''abc123'' ''sh'')
              = (w', W_returned)
          \<and> attempted w' = [([''sh''], Some 1)]
          \<and> started w' = [([''sh''], Some 1)])"
proof -
  have a: "sockJSSession (session_at attached_world ''abc123'') = Some 1"
    by (simp add: session_at_def attached_world_def attached_def)
  have s: "\<not> succeeds (scenario bash_missing) ''bash''" "starts (scenario bash_missing) ''sh''"
    "\<not> starts (scenario bash_missing) ''bash''"
    by (simp_all add: succeeds_def starts_def scenario_defs bash_missing_def)
  have e: "attempted attached_world = []" "started attached_world = []"
    by (simp_all add: attached_world_def registered_def)
  from WaitForTerminal_shell_selection [OF a, where env = "scenario bash_missing" and shell = "[]"]
    WaitForTerminal_shell_selection [OF a, where env = "scenario bash_missing" and shell = "''sh''"]
    a s e
  show ?thesis
    by (auto simp del: waiter_run.simps)
qed

subsection \<open>Read and Next\<close>

text \<open>
  C2. \<open>Read\<close> on a session with its connection attached, for the message \<open>r\<close> that \<open>Recv\<close>
  hands over. A receive error or a decode error is returned as it is with count 0; a \<open>stdin\<close>
  message is copied into the buffer (as much of \<open>Data\<close> as fits) and the count of copied
  bytes is returned with no error; a \<open>resize\<close> message puts its size on \<open>sizeChan\<close> and
  returns 0 with no error; any other operation returns 0 and an error. In each case the
  message is consumed.
\<close>

theorem Read_by_operation:
  assumes conn: "sockJSSession t = Some s"
    and recv: "inbox (sockets w s) = r # rest"
  shows "(\<forall>e. r = Inl e \<longrightarrow> Read env w t p = Returns (received w s, p, 0, Some e))
    \<and> (\<forall>m e. r = Inr m \<and> json_Unmarshal env m = Inl e \<longrightarrow>
          Read env w t p = Returns (received w s, p, 0, Some e))
    \<and> (\<forall>m msg. r = Inr m \<and> json_Unmarshal env m = Inr msg \<and> Op msg = ''stdin'' \<longrightarrow>
          Read env w t p =
            Returns (received w s,
                     take (min (length p) (length (Data msg))) (Data msg)
                       @ drop (min (length p) (length (Data msg))) p,
                     min (length p) (length (Data msg)), None))
    \<and> (\<forall>m msg q. r = Inr m \<and> json_Unmarshal env m = Inr msg \<and> Op msg = ''resize''
          \<and> sizeChan t = Some q \<and> \<not> chan_closed (sizeChans w q) \<longrightarrow>
          (\<exists>w'. Read env w t p = Returns (w', p, 0, None)
             \<and> chan_queue (sizeChans w' q) =
                 chan_queue (sizeChans w q) @ [\<lparr>Width = Cols msg, Height = Rows msg\<rparr>]))
    \<and> (\<forall>m msg. r = Inr m \<and> json_Unmarshal env m = Inr msg
          \<and> Op msg \<noteq> ''stdin'' \<and> Op msg \<noteq> ''resize'' \<longrightarrow>
          (\<exists>e. Read env w t p = Returns (received w s, p, 0, Some e)))"
  using conn recv
  by (simp add: Read_def Recv_def received_def copy_def chan_send_def Let_def)

theorem Read_by_operation_witness:
  "Read (scenario all_exit) (registered (\<lambda>s. [Inl (Error ''EOF'')])) attached ''--------''
     = Returns (received (registered (\<lambda>s. [Inl (Error ''EOF'')])) 1, ''--------'', 0,
                Some (Error ''EOF''))
   \<and> Read (scenario all_exit) (registered (\<lambda>s. [Inr frame_cut])) attached ''--------''
     = Returns (received (registered (\<lambda>s. [Inr frame_cut])) 1, ''--------'', 0,
                Some (Error ''unexpected end of JSON input''))
   \<and> Read (scenario all_exit) (registered (\<lambda>s. [Inr (frame_stdin ''ls'')])) attached ''--------''
     = Returns (received (registered (\<lambda>s. [Inr (frame_stdin ''ls'')])) 1, ''ls------'', 2, None)
   \<and> (\<exists>w'. Read (scenario all_exit) (registered (\<lambda>s. [Inr frame_resize])) attached ''--------''
              = Returns (w', ''--------'', 0, None)
           \<and> chan_queue (sizeChans w' 0) = [\<lparr>Width = 80, Height = 24\<rparr>])
   \<and> (\<exists>e. Read (scenario all_exit) (registered (\<lambda>s. [Inr frame_ping])) attached ''--------''
              = Returns (received (registered (\<lambda>s. [Inr frame_ping])) 1, ''--------'', 0, Some e))"
proof -
  have c: "sockJSSession attached = Some 1"
    by (simp add: attached_def)
  have i: "\<And>r. inbox (sockets (registered (\<lambda>s. [r])) 1) = r # []"
    by (simp add: registered_def)
  note T = Read_by_operation [OF c i, of _ "scenario all_exit" "''--------''"]
  have q: "sizeChan attached = Some 0"
    by (simp add: attached_def)
  have o: "\<And>r. \<not> chan_closed (sizeChans (registered (\<lambda>s. [r])) 0)"
    "\<And>r. chan_queue (sizeChans (registered (\<lambda>s. [r])) 0) = []"
    by (simp_all add: registered_def)
  have u: "json_Unmarshal (scenario all_exit) frame_cut = Inl (Error ''unexpected end of JSON input'')"
    "json_Unmarshal (scenario all_exit) (frame_stdin ''ls'')
       = Inr (zero_TerminalMessage\<lparr>Op := ''stdin'', Data := ''ls''\<rparr>)"
    "json_Unmarshal (scenario all_exit) frame_resize
       = Inr (zero_TerminalMessage\<lparr>Op := ''resize'', Rows := 24, Cols := 80\<rparr>)"
    "json_Unmarshal (scenario all_exit) frame_ping
       = Inr (zero_TerminalMessage\<lparr>Op := ''ping''\<rparr>)"
    by (simp_all add: scenario_defs)
  have 1: "Read (scenario all_exit) (registered (\<lambda>s. [Inl (Error ''EOF'')])) attached ''--------''
     = Returns (received (registered (\<lambda>s. [Inl (Error ''EOF'')])) 1, ''--------'', 0,
                Some (Error ''EOF''))"
    using T [of "Inl (Error ''EOF'')"] by simp
  have 2: "Read (scenario all_exit) (registered (\<lambda>s. [Inr frame_cut])) attached ''--------''
     = Returns (received (registered (\<lambda>s. [Inr frame_cut])) 1, ''--------'', 0,
                Some (Error ''unexpected end of JSON input''))"
    using T [of "Inr frame_cut"] u(1) by simp
  have 3: "Read (scenario all_exit) (registered (\<lambda>s. [Inr (frame_stdin ''ls'')])) attached ''--------''
     = Returns (received (registered (\<lambda>s. [Inr (frame_stdin ''ls'')])) 1, ''ls------'', 2, None)"
    using T [of "Inr (frame_stdin ''ls'')"] u(2) by (simp add: zero_TerminalMessage_def)
  have 4: "\<exists>w'. Read (scenario all_exit) (registered (\<lambda>s. [Inr frame_resize])) attached ''--------''
              = Returns (w', ''--------'', 0, None)
           \<and> chan_queue (sizeChans w' 0) = [\<lparr>Width = 80, Height = 24\<rparr>]"
    using T [of "Inr frame_resize"] u(3) q o [of "Inr frame_resize"]
    by (simp add: zero_TerminalMessage_def)
  have 5: "\<exists>e. Read (scenario all_exit) (registered (\<lambda>s. [Inr frame_ping])) attached ''--------''
              = Returns (received (registered (\<lambda>s. [Inr frame_ping])) 1, ''--------'', 0, Some e)"
    using T [of "Inr frame_ping"] u(4) by (simp add: zero_TerminalMessage_def)
  from 1 2 3 4 5 show ?thesis by blast
qed

lemma Next_loop_take:
  assumes q: "sizeChan t = Some q"
  shows "n \<le> length (chan_queue (sizeChans w q)) \<Longrightarrow>
     Next_loop n w t =
       Returns (w\<lparr>sizeChans := (sizeChans w)
                  (q := (sizeChans w q)\<lparr>chan_queue := drop n (chan_queue (sizeChans w q))\<rparr>)\<rparr>,
                take n (chan_queue (sizeChans w q)))"
proof (induction n arbitrary: w)
  case 0
  then show ?case by simp
next
  case (Suc n)
  then obtain sz szs where qs: "chan_queue (sizeChans w q) = sz # szs"
    by (cases "chan_queue (sizeChans w q)") auto
  let ?w1 = "w\<lparr>sizeChans := (sizeChans w)(q := (sizeChans w q)\<lparr>chan_queue := szs\<rparr>)\<rparr>"
  have nx: "Next w t = Returns (?w1, sz)"
    using q qs by (simp add: Next_def chan_recv_def)
  have len: "n \<le> length (chan_queue (sizeChans ?w1 q))"
    using Suc.prems qs by simp
  have upd: "(sizeChans ?w1)(q := (sizeChans ?w1 q)\<lparr>chan_queue := drop n (chan_queue (sizeChans ?w1 q))\<rparr>)
      = (sizeChans w)(q := (sizeChans w q)\<lparr>chan_queue := drop (Suc n) (chan_queue (sizeChans w q))\<rparr>)"
    using qs by (simp add: fun_eq_iff)
  have "Next_loop n ?w1 t =
      Returns (w\<lparr>sizeChans := (sizeChans w)
                 (q := (sizeChans w q)\<lparr>chan_queue := drop (Suc n) (chan_queue (sizeChans w q))\<rparr>)\<rparr>,
               take n szs)"
    using Suc.IH [OF len] unfolding upd by (simp add: fun_upd_def)
  then show ?case
    using nx qs by (simp add: fun_upd_def)
qed

text \<open>
  C8. \<open>Read\<close> on a \<open>resize\<close> message leaves the buffer as it was, returns 0 with no error,
  and appends to the queue of \<open>sizeChan\<close> exactly one size, with \<open>Cols\<close> as the width and
  \<open>Rows\<close> as the height. \<open>Next\<close> called \<open>n\<close> times returns the \<open>n\<close> oldest sizes of the
  queue, oldest first, and removes them; on an empty queue \<open>Next\<close> blocks.
\<close>

theorem resize_queue_fifo:
  assumes conn: "sockJSSession t = Some s"
    and q: "sizeChan t = Some q"
  shows "(\<forall>m msg rest. inbox (sockets w s) = Inr m # rest \<and> json_Unmarshal env m = Inr msg
            \<and> Op msg = ''resize'' \<and> \<not> chan_closed (sizeChans w q) \<longrightarrow>
          Read env w t p =
            Returns ((received w s)\<lparr>sizeChans := (sizeChans w)
                       (q := (sizeChans w q)\<lparr>chan_queue := chan_queue (sizeChans w q)
                                @ [\<lparr>Width = Cols msg, Height = Rows msg\<rparr>]\<rparr>)\<rparr>,
                     p, 0, None))
    \<and> (\<forall>n. n \<le> length (chan_queue (sizeChans w q)) \<longrightarrow>
          Next_loop n w t =
            Returns (w\<lparr>sizeChans := (sizeChans w)
                       (q := (sizeChans w q)\<lparr>chan_queue := drop n (chan_queue (sizeChans w q))\<rparr>)\<rparr>,
                     take n (chan_queue (sizeChans w q))))
    \<and> (chan_queue (sizeChans w q) = [] \<and> \<not> chan_closed (sizeChans w q) \<longrightarrow> Next w t = Blocks)"
proof (intro conjI allI impI)
  fix m msg rest
  assume "inbox (sockets w s) = Inr m # rest \<and> json_Unmarshal env m = Inr msg
            \<and> Op msg = ''resize'' \<and> \<not> chan_closed (sizeChans w q)"
  then show "Read env w t p =
            Returns ((received w s)\<lparr>sizeChans := (sizeChans w)
                       (q := (sizeChans w q)\<lparr>chan_queue := chan_queue (sizeChans w q)
                                @ [\<lparr>Width = Cols msg, Height = Rows msg\<rparr>]\<rparr>)\<rparr>,
                     p, 0, None)"
    using conn q by (simp add: Read_def Recv_def received_def chan_send_def Let_def)
next
  fix n assume "n \<le> length (chan_queue (sizeChans w q))"
  then show "Next_loop n w t =
            Returns (w\<lparr>sizeChans := (sizeChans w)
                       (q := (sizeChans w q)\<lparr>chan_queue := drop n (chan_queue (sizeChans w q))\<rparr>)\<rparr>,
                     take n (chan_queue (sizeChans w q)))"
    by (rule Next_loop_take [OF q])
next
  assume "chan_queue (sizeChans w q) = [] \<and> \<not> chan_closed (sizeChans w q)"
  then show "Next w t = Blocks"
    using q by (simp add: Next_def chan_recv_def)
qed

theorem resize_queue_fifo_witness:
  "\<exists>w1 w2 w3.
      Read (scenario all_exit) (registered (\<lambda>s. [Inr frame_resize, Inr frame_resize_wide]))
           attached ''--------'' = Returns (w1, ''--------'', 0, None)
    \<and> Read (scenario all_exit) w1 attached ''--------'' = Returns (w2, ''--------'', 0, None)
    \<and> Next_loop 2 w2 attached
        = Returns (w3, [\<lparr>Width = 80, Height = 24\<rparr>, \<lparr>Width = 132, Height = 50\<rparr>])
    \<and> Next w3 attached = Blocks"
proof -
  let ?env = "scenario all_exit"
  let ?w0 = "registered (\<lambda>s. [Inr frame_resize, Inr frame_resize_wide])"
  let ?w1 = "(received ?w0 1)\<lparr>sizeChans := (sizeChans ?w0)
               (0 := (sizeChans ?w0 0)\<lparr>chan_queue := chan_queue (sizeChans ?w0 0)
                        @ [\<lparr>Width = 80, Height = 24\<rparr>]\<rparr>)\<rparr>"
  let ?w2 = "(received ?w1 1)\<lparr>sizeChans := (sizeChans ?w1)
               (0 := (sizeChans ?w1 0)\<lparr>chan_queue := chan_queue (sizeChans ?w1 0)
                        @ [\<lparr>Width = 132, Height = 50\<rparr>]\<rparr>)\<rparr>"
  let ?w3 = "?w2\<lparr>sizeChans := (sizeChans ?w2)
               (0 := (sizeChans ?w2 0)\<lparr>chan_queue := drop 2 (chan_queue (sizeChans ?w2 0))\<rparr>)\<rparr>"
  have c: "sockJSSession attached = Some 1" and q: "sizeChan attached = Some 0"
    by (simp_all add: attached_def)
  note T = resize_queue_fifo [OF c q, of _ ?env "''--------''"]
  have u: "json_Unmarshal ?env frame_resize
       = Inr (zero_TerminalMessage\<lparr>Op := ''resize'', Rows := 24, Cols := 80\<rparr>)"
    "json_Unmarshal ?env frame_resize_wide
       = Inr (zero_TerminalMessage\<lparr>Op := ''resize'', Rows := 50, Cols := 132\<rparr>)"
    by (simp_all add: scenario_defs)
  have r1: "Read ?env ?w0 attached ''--------'' = Returns (?w1, ''--------'', 0, None)"
    using T [of ?w0, THEN conjunct1, rule_format, where m = frame_resize and rest = "[Inr frame_resize_wide]"] u(1)
    by (simp add: registered_def zero_TerminalMessage_def)
  have r2: "Read ?env ?w1 attached ''--------'' = Returns (?w2, ''--------'', 0, None)"
    using T [of ?w1, THEN conjunct1, rule_format, where m = frame_resize_wide and rest = "[]"] u(2)
    by (simp add: registered_def received_def zero_TerminalMessage_def)
  have n3: "Next_loop 2 ?w2 attached
        = Returns (?w3, [\<lparr>Width = 80, Height = 24\<rparr>, \<lparr>Width = 132, Height = 50\<rparr>])"
    using T [of ?w2, THEN conjunct2, THEN conjunct1, rule_format, where n = 2]
    by (simp add: registered_def received_def)
  have n4: "Next ?w3 attached = Blocks"
    using T [of ?w3, THEN conjunct2, THEN conjunct2]
    by (simp add: registered_def received_def)
  from r1 r2 n3 n4 show ?thesis by blast
qed

text \<open>
  C10. When \<open>Data\<close> of a \<open>stdin\<close> message is longer than the buffer, \<open>Read\<close> fills the buffer
  with the first \<open>length p\<close> bytes and returns that count. The world it leaves is the one
  with the message taken and nothing else changed, and the whole outcome is the one of a
  message that carried the first \<open>length p\<close> bytes only: no later call can deliver the rest.
\<close>

theorem Read_truncates:
  assumes conn: "sockJSSession t = Some s"
    and recv: "inbox (sockets w s) = Inr m # rest"
    and dec: "json_Unmarshal env m = Inr msg"
    and op: "Op msg = ''stdin''"
    and long: "length p < length (Data msg)"
  shows "Read env w t p = Returns (received w s, take (length p) (Data msg), length p, None)
    \<and> (\<forall>m'. json_Unmarshal env m' = Inr (msg\<lparr>Data := take (length p) (Data msg)\<rparr>) \<longrightarrow>
          Read env (w\<lparr>sockets := (sockets w)(s := (sockets w s)\<lparr>inbox := Inr m' # rest\<rparr>)\<rparr>) t p
            = Read env w t p)"
  using conn recv dec op long
  by (simp add: Read_def Recv_def received_def copy_def Let_def min_def)

theorem Read_truncates_witness:
  "Read (scenario all_exit) (registered (\<lambda>s. [Inr (frame_stdin ''echo hello'')])) attached ''----''
     = Returns (received (registered (\<lambda>s. [Inr (frame_stdin ''echo hello'')])) 1, ''echo'', 4, None)
   \<and> Read (scenario all_exit)
        ((registered (\<lambda>s. [Inr (frame_stdin ''echo hello'')]))
           \<lparr>sockets := (sockets (registered (\<lambda>s. [Inr (frame_stdin ''echo hello'')])))
              (1 := (sockets (registered (\<lambda>s. [Inr (frame_stdin ''echo hello'')])) 1)
                      \<lparr>inbox := [Inr (frame_stdin ''echo'')]\<rparr>)\<rparr>)
        attached ''----''
     = Read (scenario all_exit) (registered (\<lambda>s. [Inr (frame_stdin ''echo hello'')])) attached ''----''"
proof -
  let ?env = "scenario all_exit"
  let ?w = "registered (\<lambda>s. [Inr (frame_stdin ''echo hello'')])"
  let ?msg = "zero_TerminalMessage\<lparr>Op := ''stdin'', Data := ''echo hello''\<rparr>"
  have c: "sockJSSession attached = Some 1"
    by (simp add: attached_def)
  have i: "inbox (sockets ?w 1) = Inr (frame_stdin ''echo hello'') # []"
    by (simp add: registered_def)
  have d: "json_Unmarshal ?env (frame_stdin ''echo hello'') = Inr ?msg"
    by (simp add: scenario_defs)
  have d': "json_Unmarshal ?env (frame_stdin ''echo'')
      = Inr (?msg\<lparr>Data := take (length ''----'') (Data ?msg)\<rparr>)"
    by (simp add: scenario_defs)
  have op: "Op ?msg = ''stdin''" and long: "length ''----'' < length (Data ?msg)"
    by simp_all
  note T = Read_truncates [OF c i d op long]
  from T [THEN conjunct1] T [THEN conjunct2, rule_format, OF d'] show ?thesis
    by simp
qed

end
